theory Spec2Isabelle
  imports Main "HOL-Library.AList"
begin

section \<open>Python values, types and errors\<close>

text \<open>
  The values a field of a model can hold. A dictionary is an association list in
  insertion order with distinct keys. A value that is itself a model instance is
  represented by the dictionary its own \<open>dump()\<close> returns, which is all that
  \<open>_unpack\<close> asks of it.
\<close>

datatype pyval =
    PNone
  | PBool bool
  | PInt int
  | PStr string
  | PList "pyval list"
  | PDict "(string \<times> pyval) list"
  | PModel "(string \<times> pyval) list"

text \<open>The classes that occur as \<open>field_type\<close>; \<open>TModel\<close> is \<open>BaseModel\<close>.\<close>

datatype pytype = TStr | TInt | TBool | TList | TDict | TNoneType | TModel | TObject

text \<open>\<open>isinstance(value, cls)\<close>: \<open>bool\<close> is a subclass of \<open>int\<close>, everything is an \<open>object\<close>.\<close>

fun isinstance :: "pyval \<Rightarrow> pytype \<Rightarrow> bool" where
  "isinstance v TObject = True"
| "isinstance PNone t = (t = TNoneType)"
| "isinstance (PBool b) t = (t = TBool \<or> t = TInt)"
| "isinstance (PInt i) t = (t = TInt)"
| "isinstance (PStr s) t = (t = TStr)"
| "isinstance (PList xs) t = (t = TList)"
| "isinstance (PDict d) t = (t = TDict)"
| "isinstance (PModel d) t = (t = TModel)"

text \<open>Truth value of a value, as \<open>if value\<close> and \<open>or\<close> test it.\<close>

fun truthy :: "pyval \<Rightarrow> bool" where
  "truthy PNone = False"
| "truthy (PBool b) = b"
| "truthy (PInt i) = (i \<noteq> 0)"
| "truthy (PStr s) = (s \<noteq> [])"
| "truthy (PList xs) = (xs \<noteq> [])"
| "truthy (PDict d) = (d \<noteq> [])"
| "truthy (PModel d) = True"

text \<open>\<open>d.get(k)\<close>: the value under \<open>k\<close>, \<open>None\<close> when the key is missing.\<close>

definition dict_get :: "(string \<rightharpoonup> pyval) \<Rightarrow> string \<Rightarrow> pyval" where
  "dict_get d k = (case d k of None \<Rightarrow> PNone | Some v \<Rightarrow> v)"

text \<open>
  The exceptions the modelled code raises. The two \<open>TypeError\<close>s of
  \<open>_FieldDescriptor.__set__\<close> are told apart by their message; the others of that
  class come from the interpreter (a call with too many arguments, an item assignment
  on a value that is no dictionary, a \<open>bytes\<close> method given a \<open>str\<close>).
\<close>

datatype type_error =
    Invalid_type_of_value pytype
  | Does_not_support_item_assignment string
  | Too_many_positional_arguments string
  | Not_a_container
  | Bytes_like_object_required

datatype error =
    TypeError type_error
  | AttributeError string
  | NameError string
  | UnboundLocalError string
  | DataProcessingError string
  | ArestorException
  | IndexError
  | ConnectionError
  | RedisError
  | NotFound

section \<open>Field and \_ModelOptions (model.py)\<close>

text \<open>
  A default is \<open>None\<close> (\<open>Literal PNone\<close>), a plain value, or a callable without
  arguments. The callable of \<open>ArestorModel.resource_id\<close> reads the clock
  (\<open>uuid.uuid1()\<close>); a callable is a function of the \<open>seed\<close> that stands for whatever
  it reads at the moment \<open>get_defaults\<close> runs.
\<close>

datatype pydefault = Literal pyval | Callable "nat \<Rightarrow> pyval"

record Field =
  name :: string
  key :: string
  field_type :: pytype
  default_value :: pydefault
  is_required :: bool
  is_read_only :: bool

fun is_not_None :: "pydefault \<Rightarrow> bool" where
  "is_not_None (Literal v) = (v \<noteq> PNone)"
| "is_not_None (Callable g) = True"

record ModelOptions =
  meta_fields :: "(string \<times> Field) list"
  defaults :: "(string \<times> pyval) list"
  default_callables :: "(string \<times> (nat \<Rightarrow> pyval)) list"

definition ModelOptions_init :: ModelOptions where
  "ModelOptions_init = \<lparr>meta_fields = [], defaults = [], default_callables = []\<rparr>"

text \<open>\<open>remove_field\<close> pops the default under the field's \<open>name\<close>, as the source does.\<close>

definition remove_field :: "ModelOptions \<Rightarrow> string \<Rightarrow> ModelOptions" where
  "remove_field meta field_name =
     (case map_of (meta_fields meta) field_name of
        None \<Rightarrow> meta
      | Some f \<Rightarrow>
          (let meta1 = meta\<lparr>meta_fields := AList.delete field_name (meta_fields meta)\<rparr>
           in if is_not_None (default_value f)
              then (case default_value f of
                      Callable g \<Rightarrow>
                        meta1\<lparr>default_callables := AList.delete (name f) (default_callables meta1)\<rparr>
                    | Literal v \<Rightarrow>
                        meta1\<lparr>defaults := AList.delete (name f) (defaults meta1)\<rparr>)
              else meta1))"

definition add_field :: "ModelOptions \<Rightarrow> Field \<Rightarrow> ModelOptions" where
  "add_field meta f =
     (let meta1 = remove_field meta (name f);
          meta2 = meta1\<lparr>meta_fields := AList.update (name f) f (meta_fields meta1)\<rparr>
      in if is_not_None (default_value f)
         then (case default_value f of
                 Callable g \<Rightarrow>
                   meta2\<lparr>default_callables := AList.update (key f) g (default_callables meta2)\<rparr>
               | Literal v \<Rightarrow>
                   meta2\<lparr>defaults := AList.update (key f) v (defaults meta2)\<rparr>)
         else meta2)"

text \<open>
  The metaclass \<open>_BaseModel.__new__\<close> creates the options and calls \<open>add_to_class\<close>
  (hence \<open>add_field\<close>) for every \<open>Field\<close> attribute of the class.
\<close>

definition new_model_class :: "Field list \<Rightarrow> ModelOptions" where
  "new_model_class fs = fold (\<lambda>f meta. add_field meta f) fs ModelOptions_init"

definition get_defaults :: "ModelOptions \<Rightarrow> nat \<Rightarrow> (string \<rightharpoonup> pyval)" where
  "get_defaults meta seed =
     fold (\<lambda>(field_name, g) d. d(field_name \<mapsto> g seed))
          (default_callables meta) (map_of (defaults meta))"

section \<open>BaseModel (model.py)\<close>

text \<open>
  The instance state: \<open>_data\<close>, \<open>_changes\<close> and \<open>_provision_done\<close>. Both dictionaries
  are only read by key, written by key, merged and cleared, so they are maps. The
  schema \<open>_meta\<close> belongs to the class and is passed to each method.
\<close>

record model =
  data :: "string \<rightharpoonup> pyval"
  changes :: "string \<rightharpoonup> pyval"
  provision_done :: bool

text \<open>
  \<open>_FieldDescriptor.__set__\<close>. A method that mutates the instance returns the exception
  it raised, if any, and the state of the instance when it returned or raised.
\<close>

definition FieldDescriptor_set :: "Field \<Rightarrow> pyval \<Rightarrow> model \<Rightarrow> error option \<times> model" where
  "FieldDescriptor_set f v m =
     (if \<not> isinstance v (field_type f)
      then (Some (TypeError (Invalid_type_of_value (field_type f))), m)
      else if provision_done m \<and> is_read_only f
      then (Some (TypeError (Does_not_support_item_assignment (name f))), m)
      else (None, m\<lparr>changes := (changes m)(key f \<mapsto> v), data := (data m)(key f \<mapsto> v)\<rparr>))"

text \<open>\<open>_FieldDescriptor.__get__\<close> on an instance.\<close>

definition FieldDescriptor_get :: "Field \<Rightarrow> model \<Rightarrow> pyval" where
  "FieldDescriptor_get f m = dict_get (data m) (key f)"

text \<open>
  \<open>_set_fields\<close>: the loop over \<open>self._meta.fields.values()\<close>; \<open>kw\<close> is the dictionary of
  keyword arguments, \<open>fields.pop(field.name, None)\<close> reads it. \<open>setattr\<close> goes through
  the descriptor of the field.
\<close>

fun set_fields_loop :: "Field list \<Rightarrow> (string \<times> pyval) list \<Rightarrow> model \<Rightarrow> error option \<times> model" where
  "set_fields_loop [] kw m = (None, m)"
| "set_fields_loop (f # fs) kw m =
     (let v = dict_get (map_of kw) (name f)
      in if data m (key f) = None \<or> truthy v
         then (case FieldDescriptor_set f v m of
                 (Some e, m') \<Rightarrow> (Some e, m')
               | (None, m') \<Rightarrow> set_fields_loop fs kw m')
         else set_fields_loop fs kw m)"

definition set_fields :: "ModelOptions \<Rightarrow> (string \<times> pyval) list \<Rightarrow> model \<Rightarrow> error option \<times> model" where
  "set_fields meta kw m = set_fields_loop (map snd (meta_fields meta)) kw m"

text \<open>\<open>BaseModel.__init__\<close>: an exception leaves no instance behind.\<close>

definition BaseModel_init :: "ModelOptions \<Rightarrow> nat \<Rightarrow> (string \<times> pyval) list \<Rightarrow> error + model" where
  "BaseModel_init meta seed kw =
     (let m0 = \<lparr>data = get_defaults meta seed, changes = Map.empty, provision_done = False\<rparr>
      in case set_fields meta kw m0 of
           (Some e, m) \<Rightarrow> Inl e
         | (None, m) \<Rightarrow> Inr (m\<lparr>provision_done := True\<rparr>))"

text \<open>
  \<open>validate\<close>: the loop over \<open>self._meta.fields.items()\<close>; it reads \<open>_data\<close> under
  \<open>field.name\<close>.
\<close>

fun validate_loop :: "(string \<times> Field) list \<Rightarrow> model \<Rightarrow> error option" where
  "validate_loop [] m = None"
| "validate_loop ((field_name, f) # fs) m =
     (if is_required f \<and> dict_get (data m) (name f) = PNone
      then Some (DataProcessingError field_name)
      else validate_loop fs m)"

definition validate :: "ModelOptions \<Rightarrow> model \<Rightarrow> error option \<times> model" where
  "validate meta m = (validate_loop (meta_fields meta) m, m)"

text \<open>\<open>update\<close>: \<open>upd\<close> is the dictionary \<open>fields\<close> of the call.\<close>

fun update_loop :: "(string \<times> Field) list \<Rightarrow> (string \<times> pyval) list \<Rightarrow> (string \<rightharpoonup> pyval) \<Rightarrow> (string \<rightharpoonup> pyval)" where
  "update_loop [] upd ch = ch"
| "update_loop ((field_name, f) # fs) upd ch =
     (case map_of upd field_name of
        Some v \<Rightarrow> update_loop fs upd (ch(key f \<mapsto> v))
      | None \<Rightarrow> update_loop fs upd ch)"

definition update :: "ModelOptions \<Rightarrow> (string \<times> pyval) list \<Rightarrow> model \<Rightarrow> model" where
  "update meta upd m =
     (if upd = [] then m
      else (let ch = update_loop (meta_fields meta) upd (changes m)
            in m\<lparr>changes := ch, data := data m ++ ch\<rparr>))"

text \<open>\<open>BaseModel.commit\<close>.\<close>

definition BaseModel_commit :: "model \<Rightarrow> model" where
  "BaseModel_commit m = m\<lparr>data := data m ++ changes m, changes := Map.empty\<rparr>"

text \<open>\<open>_unpack\<close> and \<open>dump\<close>.\<close>

fun unpack :: "pyval \<Rightarrow> pyval" where
  "unpack (PModel d) = PDict d"
| "unpack (PList xs) = PList (map unpack xs)"
| "unpack (PDict d) = PDict (map (\<lambda>(k, v). (k, unpack v)) d)"
| "unpack v = v"

fun dump_loop :: "Field list \<Rightarrow> bool \<Rightarrow> model \<Rightarrow> (string \<times> pyval) list \<Rightarrow> (string \<times> pyval) list" where
  "dump_loop [] include_read_only m content = content"
| "dump_loop (f # fs) include_read_only m content =
     (if is_read_only f \<and> \<not> include_read_only
      then dump_loop fs include_read_only m content
      else (let v = unpack (dict_get (data m) (key f))
            in if \<not> is_required f \<and> v = PNone
               then dump_loop fs include_read_only m content
               else dump_loop fs include_read_only m (AList.update (key f) v content)))"

definition dump :: "ModelOptions \<Rightarrow> bool \<Rightarrow> model \<Rightarrow> (string \<times> pyval) list" where
  "dump meta include_read_only m = dump_loop (map snd (meta_fields meta)) include_read_only m []"

section \<open>ArestorModel (model.py)\<close>

text \<open>
  \<open>ArestorModel\<close> declares \<open>resource_id\<close> (type \<open>str\<close>, a callable default) and keeps
  the connector it was given. \<open>uuid\<close> is the function of the seed that stands for
  \<open>str(uuid.uuid1())\<close>.
\<close>

definition resource_id_field :: "(nat \<Rightarrow> string) \<Rightarrow> Field" where
  "resource_id_field uuid =
     \<lparr>name = ''resource_id'', key = ''resource_id'', field_type = TStr,
      default_value = Callable (\<lambda>seed. PStr (uuid seed)),
      is_required = False, is_read_only = False\<rparr>"

definition ArestorModel_meta :: "(nat \<Rightarrow> string) \<Rightarrow> ModelOptions" where
  "ArestorModel_meta uuid = new_model_class [resource_id_field uuid]"

text \<open>
  \<open>ArestorModel.commit\<close>: \<open>self._connector.set(self, self.__class__.__name__)\<close>, then
  \<open>BaseModel.commit\<close>. The connector is whatever object the constructor received;
  \<open>connector_set\<close> is the behaviour of its \<open>set\<close> on a model, a class name and the
  connector's state: the exception it raises, if any, and the state it leaves.
\<close>

definition ArestorModel_commit ::
  "(model \<Rightarrow> string \<Rightarrow> 'c \<Rightarrow> error option \<times> 'c) \<Rightarrow> string \<Rightarrow> model \<Rightarrow> 'c
     \<Rightarrow> error option \<times> model \<times> 'c" where
  "ArestorModel_commit connector_set class_name m c =
     (case connector_set m class_name c of
        (Some e, c') \<Rightarrow> (Some e, m, c')
      | (None, c') \<Rightarrow> (None, BaseModel_commit m, c'))"

section \<open>Flattening and its inverse (connector.py)\<close>

text \<open>
  \<open>_dump_content\<close>: the loop over \<open>root.items()\<close>. For a nested dictionary it calls
  \<open>self._process_content\<close>, a method no class of the repository defines.
\<close>

fun dump_content_loop ::
  "(string \<times> pyval) list \<Rightarrow> string \<Rightarrow> (string \<times> pyval) list \<Rightarrow> error + (string \<times> pyval) list" where
  "dump_content_loop [] prefix content = Inr content"
| "dump_content_loop ((k, v) # items) prefix content =
     (let content_key = (if prefix = [] then k else prefix @ ''.'' @ k)
      in if isinstance v TDict
         then Inl (AttributeError ''_process_content'')
         else dump_content_loop items prefix (AList.update content_key v content))"

definition dump_content :: "(string \<times> pyval) list \<Rightarrow> string \<Rightarrow> error + (string \<times> pyval) list" where
  "dump_content root prefix = dump_content_loop root prefix []"

text \<open>\<open>key.split(sep)\<close> for a one-character separator: never the empty list.\<close>

fun split_on :: "char \<Rightarrow> string \<Rightarrow> string list" where
  "split_on sep [] = [[]]"
| "split_on sep (ch # s) =
     (if ch = sep then [] # split_on sep s
      else (case split_on sep s of [] \<Rightarrow> [[ch]] | w # ws \<Rightarrow> (ch # w) # ws))"

text \<open>
  The walk of \<open>_load_content\<close> from a container down the path \<open>entities\<close>, with
  \<open>setdefault(entity, {})\<close> at each step and the item assignment at the end. The
  containers are mutated in place, so the result is the container with the walked
  child replaced. A container that is no dictionary has no \<open>setdefault\<close> and takes no
  string key.
\<close>

fun set_path :: "string list \<Rightarrow> string \<Rightarrow> pyval \<Rightarrow> pyval \<Rightarrow> error + pyval" where
  "set_path [] container_key v (PDict d) = Inr (PDict (AList.update container_key v d))"
| "set_path [] container_key v other = Inl (TypeError Not_a_container)"
| "set_path (e # es) container_key v (PDict d) =
     (let child = (case map_of d e of None \<Rightarrow> PDict [] | Some c \<Rightarrow> c)
      in case set_path es container_key v child of
           Inl err \<Rightarrow> Inl err
         | Inr child' \<Rightarrow> Inr (PDict (AList.update e child' d)))"
| "set_path (e # es) container_key v other = Inl (AttributeError ''setdefault'')"

fun load_content_loop :: "(string \<times> pyval) list \<Rightarrow> pyval \<Rightarrow> error + pyval" where
  "load_content_loop [] content = Inr content"
| "load_content_loop ((k, v) # items) content =
     (case rev (split_on CHR ''.'' k) of
        [] \<Rightarrow> Inl IndexError
      | container_key # rev_entities \<Rightarrow>
          (case set_path (rev rev_entities) container_key v content of
             Inl err \<Rightarrow> Inl err
           | Inr content' \<Rightarrow> load_content_loop items content'))"

definition load_content :: "(string \<times> pyval) list \<Rightarrow> error + pyval" where
  "load_content flat = load_content_loop flat (PDict [])"

section \<open>RedisConnector (connector.py)\<close>

text \<open>
  The connector and the server it talks to. \<open>connection\<close> says whether
  \<open>self._connection\<close> is a client object (rather than \<open>None\<close>); \<open>net\<close> lists what
  the coming round trips to the server will meet (the server answers, the client
  raises \<open>redis.ConnectionError\<close>, or it raises another \<open>redis.RedisError\<close>), and
  when the list is used up the server is unreachable; \<open>sets\<close> and \<open>hashes\<close> are the
  server's data. \<open>CONFIG.retry_count\<close> comes from a module that is not part of the
  sources and is the parameter \<open>retry_count\<close>.

  The class marks its own \<open>remove\<close> as abstract, so Python refuses to instantiate it
  as it stands; the methods below are what runs on an instance of a subclass that
  supplies \<open>remove\<close>.
\<close>

datatype reply = Reply_ok | Raise_ConnectionError | Raise_RedisError

record RedisConnector =
  connection :: bool
  net :: "reply list"
  sets :: "string \<Rightarrow> string set"
  hashes :: "string \<Rightarrow> (string \<rightharpoonup> string)"

text \<open>
  One command sent through \<open>self._connection\<close>: \<open>None\<close> has no such attribute;
  otherwise the next entry of \<open>net\<close> decides.
\<close>

definition round_trip :: "string \<Rightarrow> RedisConnector \<Rightarrow> error option \<times> RedisConnector" where
  "round_trip command c =
     (if \<not> connection c then (Some (AttributeError command), c)
      else (case net c of
              [] \<Rightarrow> (Some ConnectionError, c)
            | Reply_ok # rs \<Rightarrow> (None, c\<lparr>net := rs\<rparr>)
            | Raise_ConnectionError # rs \<Rightarrow> (Some ConnectionError, c\<lparr>net := rs\<rparr>)
            | Raise_RedisError # rs \<Rightarrow> (Some RedisError, c\<lparr>net := rs\<rparr>)))"

text \<open>\<open>is_alive\<close>: \<open>redis.ConnectionError\<close> is caught, anything else propagates.\<close>

definition is_alive :: "RedisConnector \<Rightarrow> (error + bool) \<times> RedisConnector" where
  "is_alive c =
     (if \<not> connection c then (Inr False, c)
      else (case round_trip ''ping'' c of
              (None, c') \<Rightarrow> (Inr True, c')
            | (Some ConnectionError, c') \<Rightarrow> (Inr False, c')
            | (Some e, c') \<Rightarrow> (Inl e, c')))"

text \<open>
  \<open>_connect\<close>: a new client object (creating it sends nothing), then
  \<open>if not self.is_alive(): return True\<close>; the function falls off its end, returning
  \<open>None\<close>, when the connection is alive, and returns \<open>False\<close> from the handler.
\<close>

definition connect :: "RedisConnector \<Rightarrow> pyval \<times> RedisConnector" where
  "connect c =
     (case is_alive (c\<lparr>connection := True\<rparr>) of
        (Inr alive, c') \<Rightarrow> (if \<not> alive then (PBool True, c') else (PNone, c'))
      | (Inl e, c') \<Rightarrow> (PBool False, c'))"

text \<open>\<open>refresh\<close>: the \<open>for ... else\<close> over \<open>range(CONFIG.retry_count)\<close>.\<close>

fun refresh_loop :: "nat \<Rightarrow> RedisConnector \<Rightarrow> (error + bool) \<times> RedisConnector" where
  "refresh_loop 0 c = (Inl ArestorException, c)"
| "refresh_loop (Suc n) c =
     (case is_alive c of
        (Inl e, c1) \<Rightarrow> (Inl e, c1)
      | (Inr True, c1) \<Rightarrow> (Inr True, c1)
      | (Inr False, c1) \<Rightarrow>
          (case connect c1 of
             (r, c2) \<Rightarrow> if truthy r then (Inr True, c2) else refresh_loop n c2))"

definition refresh :: "nat \<Rightarrow> RedisConnector \<Rightarrow> (error + bool) \<times> RedisConnector" where
  "refresh retry_count c = refresh_loop retry_count c"

text \<open>
  What \<open>str.format\<close> makes of a value. The rendering of containers and of model
  instances is left unspecified; no resource id of the development is one.
\<close>

fun digits :: "nat \<Rightarrow> string" where
  "digits n = (if n < 10 then [char_of (48 + n)] else digits (n div 10) @ [char_of (48 + n mod 10)])"

declare digits.simps [simp del]

definition py_str :: "pyval \<Rightarrow> string" where
  "py_str v =
     (case v of
        PStr s \<Rightarrow> s
      | PNone \<Rightarrow> ''None''
      | PBool b \<Rightarrow> (if b then ''True'' else ''False'')
      | PInt i \<Rightarrow> (if i < 0 then ''-'' @ digits (nat (- i)) else digits (nat i))
      | _ \<Rightarrow> undefined)"

text \<open>\<open>sep.join(words)\<close>.\<close>

fun join :: "string \<Rightarrow> string list \<Rightarrow> string" where
  "join sep [] = []"
| "join sep [w] = w"
| "join sep (w # ws) = w @ sep @ join sep ws"

text \<open>
  \<open>_set_field\<close>: the module never imports \<open>json\<close>, so evaluating the arguments of
  \<open>hset\<close> raises \<open>NameError\<close> before anything is sent.
\<close>

definition set_field :: "string \<Rightarrow> string \<Rightarrow> string \<Rightarrow> pyval \<Rightarrow> RedisConnector \<Rightarrow> error option \<times> RedisConnector" where
  "set_field model_name resource_id field_key v c =
     (if \<not> connection c then (Some (AttributeError ''hset''), c)
      else (Some (NameError ''json''), c))"

text \<open>\<open>_get_field\<close>: the client has no method \<open>hfet\<close>.\<close>

definition get_field :: "string \<Rightarrow> string \<Rightarrow> string \<Rightarrow> RedisConnector \<Rightarrow> (error + string) \<times> RedisConnector" where
  "get_field model_name resource_id field_key c = (Inl (AttributeError ''hfet''), c)"

fun set_field_loop :: "string \<Rightarrow> string \<Rightarrow> (string \<times> pyval) list \<Rightarrow> RedisConnector \<Rightarrow> error option \<times> RedisConnector" where
  "set_field_loop model_name resource_id [] c = (None, c)"
| "set_field_loop model_name resource_id ((field_key, v) # content) c =
     (case set_field model_name resource_id field_key v c of
        (Some e, c') \<Rightarrow> (Some e, c')
      | (None, c') \<Rightarrow> set_field_loop model_name resource_id content c')"

text \<open>\<open>_add_resource\<close>: \<open>sadd\<close>, \<open>hset\<close> of the schema entry, then every field.\<close>

definition add_resource :: "string \<Rightarrow> string \<Rightarrow> (string \<times> pyval) list \<Rightarrow> RedisConnector \<Rightarrow> error option \<times> RedisConnector" where
  "add_resource model_name resource_id content c =
     (let models_key = ''models.'' @ model_name
      in case round_trip ''sadd'' c of
           (Some e, c1) \<Rightarrow> (Some e, c1)
         | (None, c1) \<Rightarrow>
             (let c2 = c1\<lparr>sets := (sets c1)(models_key := insert resource_id (sets c1 models_key))\<rparr>;
                  schema_key = resource_id @ ''.fields''
              in case round_trip ''hset'' c2 of
                   (Some e, c3) \<Rightarrow> (Some e, c3)
                 | (None, c3) \<Rightarrow>
                     (let c4 = c3\<lparr>hashes := (hashes c3)
                                 (''schema'' := (hashes c3 ''schema'')
                                    (schema_key \<mapsto> join '','' (map fst content)))\<rparr>
                      in set_field_loop model_name resource_id content c4)))"

text \<open>
  The client is created as \<open>redis.StrictRedis(host, port, db)\<close>, without
  \<open>decode_responses\<close>, so what \<open>hget\<close> replies for an entry that exists is \<open>bytes\<close>.
  \<open>resource_keys.split(",")\<close> then gives \<open>bytes.split\<close> a \<open>str\<close> separator, and that
  raises \<open>TypeError\<close> whatever the bytes are.
\<close>

definition bytes_split_by_str :: "string \<Rightarrow> string \<Rightarrow> error + string list" where
  "bytes_split_by_str reply sep = Inl (TypeError Bytes_like_object_required)"

text \<open>
  \<open>_get_resource\<close>: the answer of \<open>sismember\<close> is not used; \<open>hget\<close> gives \<open>None\<close> for
  a missing entry, and \<open>None\<close> has no \<open>split\<close>. The body of the loop, were it reached,
  reads the local variable \<open>field\<close> before any assignment to it, so its first round
  raises.
\<close>

fun get_resource_loop ::
  "string \<Rightarrow> string \<Rightarrow> string list \<Rightarrow> (string \<times> pyval) list \<Rightarrow> RedisConnector
     \<Rightarrow> (error + (string \<times> pyval) list) \<times> RedisConnector" where
  "get_resource_loop model_name resource_id [] resource c = (Inr resource, c)"
| "get_resource_loop model_name resource_id (k # ks) resource c =
     (Inl (UnboundLocalError ''field''), c)"

definition get_resource ::
  "string \<Rightarrow> string \<Rightarrow> RedisConnector \<Rightarrow> (error + (string \<times> pyval) list) \<times> RedisConnector" where
  "get_resource model_name resource_id c =
     (case round_trip ''sismember'' c of
        (Some e, c1) \<Rightarrow> (Inl e, c1)
      | (None, c1) \<Rightarrow>
          (case round_trip ''hget'' c1 of
             (Some e, c2) \<Rightarrow> (Inl e, c2)
           | (None, c2) \<Rightarrow>
               (case hashes c2 ''schema'' (resource_id @ ''.fields'') of
                  None \<Rightarrow> (Inl (AttributeError ''split''), c2)
                | Some resource_keys \<Rightarrow>
                    (case bytes_split_by_str resource_keys '','' of
                       Inl e \<Rightarrow> (Inl e, c2)
                     | Inr ks \<Rightarrow> get_resource_loop model_name resource_id ks [] c2))))"

text \<open>\<open>_remove_resource\<close>; no method of the class calls it.\<close>

definition remove_resource :: "string \<Rightarrow> string \<Rightarrow> RedisConnector \<Rightarrow> error option \<times> RedisConnector" where
  "remove_resource model_name resource_id c =
     (let models_key = ''models.'' @ model_name
      in case round_trip ''srem'' c of
           (Some e, c1) \<Rightarrow> (Some e, c1)
         | (None, c1) \<Rightarrow>
             (let c2 = c1\<lparr>sets := (sets c1)(models_key := sets c1 models_key - {resource_id})\<rparr>;
                  schema_key = resource_id @ ''.fields''
              in case round_trip ''hget'' c2 of
                   (Some e, c3) \<Rightarrow> (Some e, c3)
                 | (None, c3) \<Rightarrow>
                     (case round_trip ''hdel'' c3 of
                        (Some e, c4) \<Rightarrow> (Some e, c4)
                      | (None, c4) \<Rightarrow>
                          (None, c4\<lparr>hashes := (hashes c4)
                                   (''schema'' := (hashes c4 ''schema'')(schema_key := None))\<rparr>))))"

text \<open>\<open>get(resource_id, model_name)\<close>.\<close>

definition RedisConnector_get ::
  "nat \<Rightarrow> string \<Rightarrow> string \<Rightarrow> RedisConnector \<Rightarrow> (error + pyval) \<times> RedisConnector" where
  "RedisConnector_get retry_count resource_id model_name c =
     (case refresh retry_count c of
        (Inl e, c1) \<Rightarrow> (Inl e, c1)
      | (Inr ok, c1) \<Rightarrow>
          (case get_resource model_name resource_id c1 of
             (Inl e, c2) \<Rightarrow> (Inl e, c2)
           | (Inr content, c2) \<Rightarrow> (load_content content, c2)))"

text \<open>\<open>remove(resource_id, model_name)\<close>: its body is the call of \<open>refresh\<close>.\<close>

definition RedisConnector_remove ::
  "nat \<Rightarrow> string \<Rightarrow> string \<Rightarrow> RedisConnector \<Rightarrow> error option \<times> RedisConnector" where
  "RedisConnector_remove retry_count resource_id model_name c =
     (case refresh retry_count c of
        (Inl e, c1) \<Rightarrow> (Some e, c1)
      | (Inr ok, c1) \<Rightarrow> (None, c1))"

text \<open>
  \<open>set(model)\<close>: the model is given by its class (\<open>meta\<close>, \<open>class_name\<close>) and its
  state. \<open>model.resource_id\<close> goes through the descriptor of the field of that name
  and is an \<open>AttributeError\<close> for a class without it.
\<close>

definition RedisConnector_set ::
  "nat \<Rightarrow> ModelOptions \<Rightarrow> string \<Rightarrow> model \<Rightarrow> RedisConnector \<Rightarrow> error option \<times> RedisConnector" where
  "RedisConnector_set retry_count meta class_name m c =
     (case refresh retry_count c of
        (Inl e, c1) \<Rightarrow> (Some e, c1)
      | (Inr ok, c1) \<Rightarrow>
          (case dump_content (dump meta True m) [] of
             Inl e \<Rightarrow> (Some e, c1)
           | Inr content \<Rightarrow>
               (case map_of (meta_fields meta) ''resource_id'' of
                  None \<Rightarrow> (Some (AttributeError ''resource_id''), c1)
                | Some f \<Rightarrow>
                    add_resource class_name (py_str (FieldDescriptor_get f m)) content c1)))"

text \<open>
  \<open>ArestorModel.commit\<close> calls \<open>set\<close> with the model and the class name, one
  positional argument more than \<open>set(self, model)\<close> takes: the interpreter raises
  \<open>TypeError\<close> before the body runs.
\<close>

definition RedisConnector_set_from_commit ::
  "model \<Rightarrow> string \<Rightarrow> RedisConnector \<Rightarrow> error option \<times> RedisConnector" where
  "RedisConnector_set_from_commit m class_name c =
     (Some (TypeError (Too_many_positional_arguments ''set'')), c)"

section \<open>Concrete classes, records and connectors\<close>

text \<open>
  The record type of the scenario: \<open>name\<close> (a string, required, no default) and
  \<open>count\<close> (an integer, default 0).
\<close>

definition name_field :: Field where
  "name_field = \<lparr>name = ''name'', key = ''name'', field_type = TStr,
     default_value = Literal PNone, is_required = True, is_read_only = False\<rparr>"

definition count_field :: Field where
  "count_field = \<lparr>name = ''count'', key = ''count'', field_type = TInt,
     default_value = Literal (PInt 0), is_required = False, is_read_only = False\<rparr>"

definition scenario_meta :: ModelOptions where
  "scenario_meta = new_model_class [name_field, count_field]"

text \<open>A record of that type as construction with \<open>name = "x"\<close> and a commit leave it.\<close>

definition scenario_model :: model where
  "scenario_model =
     \<lparr>data = [''name'' \<mapsto> PStr ''x'', ''count'' \<mapsto> PInt 0], changes = Map.empty,
      provision_done = True\<rparr>"

text \<open>The same record as construction alone leaves it.\<close>

definition fresh_scenario_model :: model where
  "fresh_scenario_model =
     \<lparr>data = [''count'' \<mapsto> PInt 0, ''name'' \<mapsto> PStr ''x''], changes = [''name'' \<mapsto> PStr ''x''],
      provision_done = True\<rparr>"

text \<open>A required field whose \<open>key\<close> differs from its \<open>name\<close>, and a read-only field.\<close>

definition hostname_field :: Field where
  "hostname_field = \<lparr>name = ''hostname'', key = ''host'', field_type = TStr,
     default_value = Literal PNone, is_required = True, is_read_only = False\<rparr>"

definition hostname_meta :: ModelOptions where
  "hostname_meta = new_model_class [hostname_field]"

definition uuid_field :: Field where
  "uuid_field = \<lparr>name = ''uuid'', key = ''uuid'', field_type = TStr,
     default_value = Literal PNone, is_required = False, is_read_only = True\<rparr>"

definition uuid_meta :: ModelOptions where
  "uuid_meta = new_model_class [uuid_field]"

text \<open>The nested map of the flattening scenario and its flat form.\<close>

definition nested_example :: "(string \<times> pyval) list" where
  "nested_example = [(''a'', PDict [(''b'', PInt 1), (''c'', PInt 2)]), (''d'', PInt 3)]"

definition flat_example :: "(string \<times> pyval) list" where
  "flat_example = [(''a.b'', PInt 1), (''a.c'', PInt 2), (''d'', PInt 3)]"

text \<open>
  A connector that has not connected yet, with an empty server behind it, and an
  \<open>ArestorModel\<close> (class \<open>Server\<close>) whose resource id is \<open>r1\<close>.
\<close>

definition new_connector :: "reply list \<Rightarrow> RedisConnector" where
  "new_connector rs =
     \<lparr>connection = False, net = rs, sets = (\<lambda>k. {}), hashes = (\<lambda>h. Map.empty)\<rparr>"

text \<open>The same connector in front of a server that answers the next eight round trips.\<close>

definition up_connector :: RedisConnector where
  "up_connector =
     new_connector [Reply_ok, Reply_ok, Reply_ok, Reply_ok, Reply_ok, Reply_ok, Reply_ok, Reply_ok]"

definition server_model :: model where
  "server_model =
     \<lparr>data = [''resource_id'' \<mapsto> PStr ''r1''], changes = Map.empty, provision_done = True\<rparr>"

definition server_meta :: ModelOptions where
  "server_meta = ArestorModel_meta (\<lambda>seed. ''r1'')"

text \<open>
  The record that \<open>Server(connector, resource_id="r1")\<close> constructs: the setter has
  put the given id into the pending changes as well as into the data.
\<close>

definition pending_server_model :: model where
  "pending_server_model =
     \<lparr>data = [''resource_id'' \<mapsto> PStr ''r1''], changes = [''resource_id'' \<mapsto> PStr ''r1''],
      provision_done = True\<rparr>"

text \<open>A connector double whose \<open>set\<close> accepts the call of \<open>commit\<close> and records the class name.\<close>

definition recording_set :: "model \<Rightarrow> string \<Rightarrow> string list \<Rightarrow> error option \<times> string list" where
  "recording_set m class_name log = (None, class_name # log)"

section \<open>The concrete classes, unfolded\<close>

lemma scenario_meta_eq:
  "scenario_meta = \<lparr>meta_fields = [(''name'', name_field), (''count'', count_field)],
     defaults = [(''count'', PInt 0)], default_callables = []\<rparr>"
  by (simp add: scenario_meta_def new_model_class_def add_field_def remove_field_def
      ModelOptions_init_def name_field_def count_field_def)

lemma hostname_meta_eq:
  "hostname_meta = \<lparr>meta_fields = [(''hostname'', hostname_field)], defaults = [], default_callables = []\<rparr>"
  by (simp add: hostname_meta_def new_model_class_def add_field_def remove_field_def
      ModelOptions_init_def hostname_field_def)

lemma uuid_meta_eq:
  "uuid_meta = \<lparr>meta_fields = [(''uuid'', uuid_field)], defaults = [], default_callables = []\<rparr>"
  by (simp add: uuid_meta_def new_model_class_def add_field_def remove_field_def
      ModelOptions_init_def uuid_field_def)

lemma server_meta_eq:
  "server_meta = \<lparr>meta_fields = [(''resource_id'', resource_id_field (\<lambda>seed. ''r1''))], defaults = [],
      default_callables = [(''resource_id'', \<lambda>seed. PStr ''r1'')]\<rparr>"
  by (simp add: server_meta_def ArestorModel_meta_def new_model_class_def add_field_def remove_field_def
      ModelOptions_init_def resource_id_field_def)

section \<open>Pending changes are part of the current data\<close>

lemma FieldDescriptor_set_submap:
  "changes m \<subseteq>\<^sub>m data m \<Longrightarrow>
   changes (snd (FieldDescriptor_set f v m)) \<subseteq>\<^sub>m data (snd (FieldDescriptor_set f v m))"
  by (auto simp: FieldDescriptor_set_def map_le_def)

lemma set_fields_loop_submap:
  "changes m \<subseteq>\<^sub>m data m \<Longrightarrow>
   changes (snd (set_fields_loop fs kw m)) \<subseteq>\<^sub>m data (snd (set_fields_loop fs kw m))"
proof (induction fs arbitrary: m)
  case Nil
  then show ?case by simp
next
  case (Cons f fs)
  let ?v = "dict_get (map_of kw) (name f)"
  show ?case
  proof (cases "data m (key f) = None \<or> truthy ?v")
    case False
    have "set_fields_loop (f # fs) kw m = set_fields_loop fs kw m"
      by (simp only: set_fields_loop.simps Let_def if_not_P [OF False])
    then show ?thesis using Cons by simp
  next
    case True
    obtain r m1 where r: "FieldDescriptor_set f ?v m = (r, m1)" by (cases "FieldDescriptor_set f ?v m")
    have inv1: "changes m1 \<subseteq>\<^sub>m data m1"
      using FieldDescriptor_set_submap [OF Cons.prems, of f ?v] r by simp
    have step: "set_fields_loop (f # fs) kw m =
        (case (r, m1) of (Some e, m') \<Rightarrow> (Some e, m') | (None, m') \<Rightarrow> set_fields_loop fs kw m')"
      by (simp only: set_fields_loop.simps Let_def if_P [OF True] r)
    show ?thesis
    proof (cases r)
      case None
      then show ?thesis using step Cons.IH [OF inv1] by simp
    next
      case (Some e)
      then show ?thesis using step inv1 by simp
    qed
  qed
qed

lemma update_submap:
  "changes m \<subseteq>\<^sub>m data m \<Longrightarrow> changes (update meta upd m) \<subseteq>\<^sub>m data (update meta upd m)"
  by (auto simp: update_def Let_def map_le_def map_add_def split: option.splits)

lemma commit_submap: "changes (BaseModel_commit m) \<subseteq>\<^sub>m data (BaseModel_commit m)"
  by (simp add: BaseModel_commit_def)

lemma init_submap:
  assumes "BaseModel_init meta seed kw = Inr m"
  shows "changes m \<subseteq>\<^sub>m data m"
proof -
  let ?m0 = "\<lparr>data = get_defaults meta seed, changes = Map.empty, provision_done = False\<rparr>"
  have "changes ?m0 \<subseteq>\<^sub>m data ?m0" by simp
  then have "changes (snd (set_fields meta kw ?m0)) \<subseteq>\<^sub>m data (snd (set_fields meta kw ?m0))"
    unfolding set_fields_def by (rule set_fields_loop_submap)
  with assms show ?thesis
    by (auto simp: BaseModel_init_def Let_def split: prod.splits option.splits)
qed

lemma set_fields_loop_assigned:
  assumes "set_fields_loop fs kw m = (None, m')"
    and "\<forall>k. data m k \<noteq> None \<longrightarrow> d0 k \<noteq> None \<or> changes m k \<noteq> None"
  shows "(\<forall>k. changes m k \<noteq> None \<longrightarrow> changes m' k \<noteq> None) \<and>
         (\<forall>f \<in> set fs. d0 (key f) = None \<or> truthy (dict_get (map_of kw) (name f))
             \<longrightarrow> changes m' (key f) \<noteq> None)"
  using assms
proof (induction fs arbitrary: m)
  case Nil
  then show ?case by simp
next
  case (Cons f fs)
  let ?v = "dict_get (map_of kw) (name f)"
  show ?case
  proof (cases "data m (key f) = None \<or> truthy ?v")
    case False
    have "set_fields_loop (f # fs) kw m = set_fields_loop fs kw m"
      by (simp only: set_fields_loop.simps Let_def if_not_P [OF False])
    then have run: "set_fields_loop fs kw m = (None, m')" using Cons.prems(1) by simp
    note ih = Cons.IH [OF run Cons.prems(2)]
    from False have "data m (key f) \<noteq> None" "\<not> truthy ?v" by auto
    moreover have "d0 (key f) = None \<longrightarrow> changes m (key f) \<noteq> None"
      using Cons.prems(2) \<open>data m (key f) \<noteq> None\<close> by blast
    ultimately show ?thesis using ih by auto
  next
    case True
    obtain r m1 where r: "FieldDescriptor_set f ?v m = (r, m1)" by (cases "FieldDescriptor_set f ?v m")
    have step: "set_fields_loop (f # fs) kw m =
        (case (r, m1) of (Some e, m') \<Rightarrow> (Some e, m') | (None, m') \<Rightarrow> set_fields_loop fs kw m')"
      by (simp only: set_fields_loop.simps Let_def if_P [OF True] r)
    with Cons.prems(1) have rn: "r = None" and run: "set_fields_loop fs kw m1 = (None, m')"
      by (auto split: option.splits)
    from r rn have m1: "m1 = m\<lparr>changes := (changes m)(key f \<mapsto> ?v), data := (data m)(key f \<mapsto> ?v)\<rparr>"
      by (auto simp: FieldDescriptor_set_def split: if_splits)
    have j1: "\<forall>k. data m1 k \<noteq> None \<longrightarrow> d0 k \<noteq> None \<or> changes m1 k \<noteq> None"
      using Cons.prems(2) by (simp add: m1)
    note ih = Cons.IH [OF run j1]
    have "changes m1 (key f) \<noteq> None" by (simp add: m1)
    moreover have "\<forall>k. changes m k \<noteq> None \<longrightarrow> changes m1 k \<noteq> None" by (simp add: m1)
    ultimately show ?thesis using ih by auto
  qed
qed

lemma init_assigned:
  assumes "BaseModel_init meta seed kw = Inr m"
    and "(n, f) \<in> set (meta_fields meta)"
    and "get_defaults meta seed (key f) = None \<or> truthy (dict_get (map_of kw) (name f))"
  shows "changes m (key f) \<noteq> None"
proof -
  let ?m0 = "\<lparr>data = get_defaults meta seed, changes = Map.empty, provision_done = False\<rparr>"
  obtain m1 where run: "set_fields_loop (map snd (meta_fields meta)) kw ?m0 = (None, m1)"
    and m: "m = m1\<lparr>provision_done := True\<rparr>"
    using assms(1) by (auto simp: BaseModel_init_def set_fields_def Let_def split: prod.splits option.splits)
  have j: "\<forall>k. data ?m0 k \<noteq> None \<longrightarrow> get_defaults meta seed k \<noteq> None \<or> changes ?m0 k \<noteq> None" by simp
  have "f \<in> set (map snd (meta_fields meta))" using assms(2) by force
  with set_fields_loop_assigned [OF run j] assms(3) have "changes m1 (key f) \<noteq> None" by blast
  then show ?thesis by (simp add: m)
qed

section \<open>What update stages\<close>

lemma update_loop_other:
  "k \<notin> key ` snd ` {(n, f). (n, f) \<in> set fs \<and> map_of upd n \<noteq> None} \<Longrightarrow> update_loop fs upd ch k = ch k"
proof (induction fs arbitrary: ch)
  case Nil
  then show ?case by simp
next
  case (Cons p fs)
  obtain n f where p: "p = (n, f)" by (cases p)
  have rest: "k \<notin> key ` snd ` {(n, f). (n, f) \<in> set fs \<and> map_of upd n \<noteq> None}"
    using Cons.prems by auto
  show ?case
  proof (cases "map_of upd n")
    case None
    then show ?thesis using Cons.IH [OF rest] p by simp
  next
    case (Some v)
    then have ne: "k \<noteq> key f" using Cons.prems p by force
    have "update_loop fs upd (ch(key f \<mapsto> v)) k = (ch(key f \<mapsto> v)) k"
      by (rule Cons.IH [OF rest])
    then show ?thesis using ne p Some by simp
  qed
qed

lemma update_loop_staged:
  "distinct (map (\<lambda>p. key (snd p)) fs) \<Longrightarrow> (n, f) \<in> set fs \<Longrightarrow> map_of upd n = Some v \<Longrightarrow>
   update_loop fs upd ch (key f) = Some v"
proof (induction fs arbitrary: ch)
  case Nil
  then show ?case by simp
next
  case (Cons p fs)
  obtain n' f' where p: "p = (n', f')" by (cases p)
  have d: "distinct (map (\<lambda>p. key (snd p)) fs)" and fresh: "key f' \<notin> (\<lambda>p. key (snd p)) ` set fs"
    using Cons.prems(1) p by auto
  show ?case
  proof (cases "(n, f) = (n', f')")
    case True
    have "key f \<notin> key ` snd ` {(n, f). (n, f) \<in> set fs \<and> map_of upd n \<noteq> None}"
      using fresh True by force
    then have "update_loop fs upd (ch(key f \<mapsto> v)) (key f) = (ch(key f \<mapsto> v)) (key f)"
      by (rule update_loop_other)
    then show ?thesis using True p Cons.prems(3) by simp
  next
    case False
    then have mem: "(n, f) \<in> set fs" using Cons.prems(2) p by auto
    show ?thesis using Cons.IH [OF d mem Cons.prems(3)] p by (simp split: option.splits)
  qed
qed

section \<open>What validate reads\<close>

text \<open>
  On a schema where every field is stored under its own name, \<open>validate\<close> raises exactly
  when a required field has no current value; it never changes the record.
\<close>

lemma validate_loop_iff:
  "\<forall>(n, f) \<in> set fs. name f = key f \<Longrightarrow>
   (validate_loop fs m \<noteq> None) = (\<exists>(n, f) \<in> set fs. is_required f \<and> FieldDescriptor_get f m = PNone)"
  by (induction fs) (auto simp: FieldDescriptor_get_def)

lemma validate_iff_when_name_is_key:
  "\<forall>(n, f) \<in> set (meta_fields meta). name f = key f \<Longrightarrow>
   (fst (validate meta m) \<noteq> None)
     = (\<exists>(n, f) \<in> set (meta_fields meta). is_required f \<and> FieldDescriptor_get f m = PNone)"
  using validate_loop_iff [of "meta_fields meta" m] by (simp add: validate_def)

lemma validate_state: "snd (validate meta m) = m"
  by (simp add: validate_def)

section \<open>Flat maps\<close>

text \<open>
  A dictionary without nested dictionaries and without a dot in its keys is its own
  flat form, and \<open>_load_content\<close> gives it back.
\<close>

lemma update_fresh_key: "k \<notin> fst ` set al \<Longrightarrow> AList.update k v al = al @ [(k, v)]"
  by (induction al) auto

lemma dump_content_loop_flat:
  "distinct (map fst (content @ items)) \<Longrightarrow> \<forall>(k, v) \<in> set items. \<not> isinstance v TDict \<Longrightarrow>
   dump_content_loop items [] content = Inr (content @ items)"
proof (induction items arbitrary: content)
  case Nil
  then show ?case by simp
next
  case (Cons p items)
  obtain k v where p: "p = (k, v)" by (cases p)
  have fresh: "k \<notin> fst ` set content" using Cons.prems(1) p by auto
  have d: "distinct (map fst ((content @ [(k, v)]) @ items))" using Cons.prems(1) p by simp
  have nd: "\<forall>(k, v) \<in> set items. \<not> isinstance v TDict" using Cons.prems(2) by simp
  have "\<not> isinstance v TDict" using Cons.prems(2) p by simp
  then show ?case using Cons.IH [OF d nd] p by (simp add: update_fresh_key [OF fresh])
qed

lemma split_on_absent: "sep \<notin> set s \<Longrightarrow> split_on sep s = [s]"
  by (induction s) auto

lemma load_content_loop_flat:
  "distinct (map fst (content @ items)) \<Longrightarrow> \<forall>(k, v) \<in> set items. CHR ''.'' \<notin> set k \<Longrightarrow>
   load_content_loop items (PDict content) = Inr (PDict (content @ items))"
proof (induction items arbitrary: content)
  case Nil
  then show ?case by simp
next
  case (Cons p items)
  obtain k v where p: "p = (k, v)" by (cases p)
  have fresh: "k \<notin> fst ` set content" using Cons.prems(1) p by auto
  have d: "distinct (map fst ((content @ [(k, v)]) @ items))" using Cons.prems(1) p by simp
  have nd: "\<forall>(k, v) \<in> set items. CHR ''.'' \<notin> set k" using Cons.prems(2) by simp
  have "CHR ''.'' \<notin> set k" using Cons.prems(2) p by simp
  then have "split_on CHR ''.'' k = [k]" by (rule split_on_absent)
  then show ?case using Cons.IH [OF d nd] p by (simp add: update_fresh_key [OF fresh])
qed

lemma flat_round_trip:
  assumes "distinct (map fst root)"
    and "\<forall>(k, v) \<in> set root. \<not> isinstance v TDict"
    and "\<forall>(k, v) \<in> set root. CHR ''.'' \<notin> set k"
  shows "dump_content root [] = Inr root \<and> load_content root = Inr (PDict root)"
  using dump_content_loop_flat [of "[]" root] load_content_loop_flat [of "[]" root] assms
  by (simp add: dump_content_def load_content_def)

section \<open>What the connector can return\<close>

text \<open>
  In front of a server that cannot be reached, one round of \<open>refresh\<close> is enough for it
  to return \<open>True\<close>. And \<open>get\<close> returns no value in any state: it raises, and never
  \<open>NotFound\<close>.
\<close>

lemma refresh_unreachable:
  "net c = [] \<Longrightarrow> fst (refresh (Suc n) c) = Inr True"
  by (simp add: refresh_def is_alive_def connect_def round_trip_def)

lemma refresh_loop_error:
  "fst (refresh_loop n c) = Inl e \<Longrightarrow> e = ArestorException \<or> e = RedisError"
proof (induction n arbitrary: c)
  case 0
  then show ?case by simp
next
  case (Suc n)
  then show ?case
    by (auto simp: is_alive_def round_trip_def connect_def split: prod.splits sum.splits if_splits bool.splits list.splits reply.splits option.splits error.splits)
qed

lemma get_resource_raises:
  "\<exists>e. fst (get_resource model_name resource_id c) = Inl e \<and> e \<noteq> NotFound"
  by (auto simp: get_resource_def round_trip_def bytes_split_by_str_def
      split: prod.splits option.splits list.splits reply.splits)

lemma RedisConnector_get_always_raises:
  "\<exists>e. fst (RedisConnector_get retry_count resource_id model_name c) = Inl e \<and> e \<noteq> NotFound"
proof (cases "refresh retry_count c")
  case (Pair r c1)
  show ?thesis
  proof (cases r)
    case (Inl e)
    with Pair refresh_loop_error [of retry_count c e] show ?thesis
      by (auto simp: RedisConnector_get_def refresh_def)
  next
    case (Inr ok)
    obtain e where "fst (get_resource model_name resource_id c1) = Inl e" "e \<noteq> NotFound"
      using get_resource_raises by blast
    with Pair Inr show ?thesis
      by (auto simp: RedisConnector_get_def split: prod.splits)
  qed
qed

section \<open>Claims\<close>

text \<open>
  C1, on the code: for the record of class \<open>Server\<close> with resource id \<open>r1\<close> and a
  server that answers, \<open>set\<close> raises \<open>NameError\<close> after it has written the schema entry
  and before it writes any field, and \<open>get\<close> of that id then raises instead of
  returning; no dump comes back.
\<close>

theorem set_then_get_raises:
  "fst (RedisConnector_set 3 server_meta ''Server'' server_model up_connector) = Some (NameError ''json'')
   \<and> hashes (snd (RedisConnector_set 3 server_meta ''Server'' server_model up_connector)) ''schema'' ''r1.fields''
        = Some ''resource_id''
   \<and> hashes (snd (RedisConnector_set 3 server_meta ''Server'' server_model up_connector)) ''Server'' ''r1.resource_id''
        = None
   \<and> isl (fst (RedisConnector_get 3 ''r1'' ''Server''
            (snd (RedisConnector_set 3 server_meta ''Server'' server_model up_connector))))"
  by (simp add: RedisConnector_set_def RedisConnector_get_def refresh_def up_connector_def new_connector_def
      bytes_split_by_str_def
      is_alive_def connect_def round_trip_def numeral_3_eq_3 get_resource_def add_resource_def
      set_field_def server_meta_eq server_model_def dump_def dump_content_def dict_get_def
      resource_id_field_def FieldDescriptor_get_def py_str_def Let_def)

text \<open>
  C2, on the code: flattening the nested map of the scenario raises \<open>AttributeError\<close>
  (the nested dictionary under \<open>a\<close> is handed to a method that does not exist), while
  \<open>_load_content\<close> of the flat map of the scenario does give the nested map.
\<close>

theorem dump_content_nested_raises:
  "dump_content nested_example [] = Inl (AttributeError ''_process_content'')
   \<and> load_content flat_example = Inr (PDict nested_example)"
  by (simp add: dump_content_def nested_example_def flat_example_def load_content_def Let_def)

text \<open>
  C3, on the code: with no schema entry for \<open>r1\<close>, \<open>get\<close> raises \<open>AttributeError\<close>
  (it splits the missing entry), not \<open>NotFound\<close>; and \<open>remove\<close> after \<open>set\<close> leaves the
  schema entry in place, and \<open>get\<close> then raises an exception that is not \<open>NotFound\<close>
  either.
\<close>

theorem get_missing_resource_raises_AttributeError:
  "fst (RedisConnector_get 3 ''r1'' ''Server'' up_connector) = Inl (AttributeError ''split'')
   \<and> hashes (snd (RedisConnector_remove 3 ''r1'' ''Server''
               (snd (RedisConnector_set 3 server_meta ''Server'' server_model up_connector))))
        ''schema'' ''r1.fields'' = Some ''resource_id''
   \<and> isl (fst (RedisConnector_get 3 ''r1'' ''Server''
            (snd (RedisConnector_remove 3 ''r1'' ''Server''
               (snd (RedisConnector_set 3 server_meta ''Server'' server_model up_connector))))))
   \<and> fst (RedisConnector_get 3 ''r1'' ''Server''
            (snd (RedisConnector_remove 3 ''r1'' ''Server''
               (snd (RedisConnector_set 3 server_meta ''Server'' server_model up_connector)))))
        \<noteq> Inl NotFound"
  by (simp add: RedisConnector_set_def RedisConnector_get_def RedisConnector_remove_def refresh_def
      bytes_split_by_str_def
      up_connector_def new_connector_def
      is_alive_def connect_def round_trip_def numeral_3_eq_3 get_resource_def add_resource_def
      set_field_def server_meta_eq server_model_def dump_def dump_content_def dict_get_def
      resource_id_field_def FieldDescriptor_get_def py_str_def Let_def)

text \<open>
  C4: \<open>commit\<close> of a store-backed record calls the connector's \<open>set\<close> on the record as it
  is before any merge; if that call raises, the exception leaves \<open>commit\<close> with the
  record unchanged (data and pending changes alike), and if it returns, the pending
  changes are merged into the data and the pending changes are empty.
\<close>

theorem commit_calls_store_first:
  "(\<forall>e c'. connector_set m class_name c = (Some e, c')
       \<longrightarrow> ArestorModel_commit connector_set class_name m c = (Some e, m, c'))
   \<and> (\<forall>c'. connector_set m class_name c = (None, c')
       \<longrightarrow> ArestorModel_commit connector_set class_name m c
            = (None, m\<lparr>data := data m ++ changes m, changes := Map.empty\<rparr>, c'))"
  by (simp add: ArestorModel_commit_def BaseModel_commit_def)

theorem commit_calls_store_first_witness:
  "BaseModel_init server_meta 0 [(''resource_id'', PStr ''r1'')] = Inr pending_server_model
   \<and> changes pending_server_model ''resource_id'' = Some (PStr ''r1'')
   \<and> RedisConnector_set_from_commit pending_server_model ''Server'' (new_connector [])
      = (Some (TypeError (Too_many_positional_arguments ''set'')), new_connector [])
   \<and> ArestorModel_commit RedisConnector_set_from_commit ''Server'' pending_server_model (new_connector [])
      = (Some (TypeError (Too_many_positional_arguments ''set'')), pending_server_model, new_connector [])
   \<and> changes (fst (snd (ArestorModel_commit RedisConnector_set_from_commit ''Server''
                          pending_server_model (new_connector [])))) ''resource_id''
      = Some (PStr ''r1'')
   \<and> recording_set pending_server_model ''Server'' [] = (None, [''Server''])
   \<and> fst (ArestorModel_commit recording_set ''Server'' pending_server_model []) = None
   \<and> snd (snd (ArestorModel_commit recording_set ''Server'' pending_server_model [])) = [''Server'']
   \<and> changes (fst (snd (ArestorModel_commit recording_set ''Server'' pending_server_model [])))
        ''resource_id'' = None
   \<and> data (fst (snd (ArestorModel_commit recording_set ''Server'' pending_server_model [])))
        ''resource_id'' = Some (PStr ''r1'')"
proof -
  have init: "BaseModel_init server_meta 0 [(''resource_id'', PStr ''r1'')] = Inr pending_server_model"
    by (simp add: server_meta_eq BaseModel_init_def set_fields_def get_defaults_def dict_get_def
        FieldDescriptor_set_def resource_id_field_def pending_server_model_def Let_def)
  have pend: "changes pending_server_model ''resource_id'' = Some (PStr ''r1'')"
    by (simp add: pending_server_model_def)
  have r: "RedisConnector_set_from_commit pending_server_model ''Server'' (new_connector [])
      = (Some (TypeError (Too_many_positional_arguments ''set'')), new_connector [])"
    by (simp add: RedisConnector_set_from_commit_def)
  have s: "recording_set pending_server_model ''Server'' [] = (None, [''Server''])"
    by (simp add: recording_set_def)
  from commit_calls_store_first
         [of RedisConnector_set_from_commit pending_server_model "''Server''" "new_connector []"] r
  have a: "ArestorModel_commit RedisConnector_set_from_commit ''Server'' pending_server_model (new_connector [])
      = (Some (TypeError (Too_many_positional_arguments ''set'')), pending_server_model, new_connector [])"
    by blast
  from commit_calls_store_first [of recording_set pending_server_model "''Server''" "[]"] s
  have b: "ArestorModel_commit recording_set ''Server'' pending_server_model []
      = (None, pending_server_model\<lparr>data := data pending_server_model ++ changes pending_server_model,
                                    changes := Map.empty\<rparr>,
         [''Server''])"
    by blast
  have b1: "changes (fst (snd (ArestorModel_commit recording_set ''Server'' pending_server_model [])))
        ''resource_id'' = None"
    by (simp add: b)
  have b2: "data (fst (snd (ArestorModel_commit recording_set ''Server'' pending_server_model [])))
        ''resource_id'' = Some (PStr ''r1'')"
    unfolding b by (simp add: pending_server_model_def)
  from init pend r s a b b1 b2 show ?thesis by simp
qed

text \<open>
  C5, as the code has it: on a schema whose fields have distinct keys, \<open>update\<close> with a
  non-empty map stages the value of every schema field named in the map into the
  pending changes under the field's key, leaves every other pending entry as it was
  (names that are not in the schema are ignored), and merges the pending changes into
  the current data at once, without waiting for \<open>commit\<close>; with an empty map it changes
  nothing.
\<close>

theorem update_stages_and_merges:
  assumes "distinct (map (\<lambda>p. key (snd p)) (meta_fields meta))"
  shows "(upd = [] \<longrightarrow> update meta upd m = m)
     \<and> (upd \<noteq> [] \<longrightarrow> data (update meta upd m) = data m ++ changes (update meta upd m))
     \<and> provision_done (update meta upd m) = provision_done m
     \<and> (\<forall>(n, f) \<in> set (meta_fields meta). \<forall>v. map_of upd n = Some v
           \<longrightarrow> changes (update meta upd m) (key f) = Some v)
     \<and> (\<forall>k. k \<notin> key ` snd ` {(n, f). (n, f) \<in> set (meta_fields meta) \<and> map_of upd n \<noteq> None}
           \<longrightarrow> changes (update meta upd m) k = changes m k)"
proof -
  have a: "upd = [] \<longrightarrow> update meta upd m = m" by (simp add: update_def)
  have b: "upd \<noteq> [] \<longrightarrow> data (update meta upd m) = data m ++ changes (update meta upd m)"
    by (simp add: update_def Let_def)
  have c: "provision_done (update meta upd m) = provision_done m"
    by (simp add: update_def Let_def)
  have ch: "upd \<noteq> [] \<Longrightarrow> changes (update meta upd m) = update_loop (meta_fields meta) upd (changes m)"
    by (simp add: update_def Let_def)
  have d: "\<forall>(n, f) \<in> set (meta_fields meta). \<forall>v. map_of upd n = Some v
           \<longrightarrow> changes (update meta upd m) (key f) = Some v"
  proof (cases "upd = []")
    case True
    then show ?thesis by simp
  next
    case False
    show ?thesis using update_loop_staged [OF assms] by (auto simp: ch [OF False])
  qed
  have e: "\<forall>k. k \<notin> key ` snd ` {(n, f). (n, f) \<in> set (meta_fields meta) \<and> map_of upd n \<noteq> None}
           \<longrightarrow> changes (update meta upd m) k = changes m k"
  proof (cases "upd = []")
    case True
    then show ?thesis by (simp add: update_def)
  next
    case False
    show ?thesis using update_loop_other by (simp add: ch [OF False])
  qed
  from a b c d e show ?thesis by blast
qed

theorem update_stages_and_merges_witness:
  "distinct (map (\<lambda>p. key (snd p)) (meta_fields scenario_meta))
   \<and> update scenario_meta [] scenario_model = scenario_model
   \<and> [(''count'', PInt 5), (''bogus'', PInt 1)] \<noteq> []
   \<and> (''count'', count_field) \<in> set (meta_fields scenario_meta)
   \<and> map_of [(''count'', PInt 5), (''bogus'', PInt 1)] ''count'' = Some (PInt 5)
   \<and> changes (update scenario_meta [(''count'', PInt 5), (''bogus'', PInt 1)] scenario_model) (key count_field)
        = Some (PInt 5)
   \<and> data (update scenario_meta [(''count'', PInt 5), (''bogus'', PInt 1)] scenario_model)
        = data scenario_model
            ++ changes (update scenario_meta [(''count'', PInt 5), (''bogus'', PInt 1)] scenario_model)"
proof -
  have h: "distinct (map (\<lambda>p. key (snd p)) (meta_fields scenario_meta))"
    by (simp add: scenario_meta_eq name_field_def count_field_def)
  have mem: "(''count'', count_field) \<in> set (meta_fields scenario_meta)"
    by (simp add: scenario_meta_eq)
  have look: "map_of [(''count'', PInt 5), (''bogus'', PInt 1)] ''count'' = Some (PInt 5)" by simp
  note w1 = update_stages_and_merges [OF h, of "[]" scenario_model]
  note w2 = update_stages_and_merges [OF h, of "[(''count'', PInt 5), (''bogus'', PInt 1)]" scenario_model]
  from w1 have "update scenario_meta [] scenario_model = scenario_model" by simp
  moreover from w2 mem look
  have "changes (update scenario_meta [(''count'', PInt 5), (''bogus'', PInt 1)] scenario_model) (key count_field)
        = Some (PInt 5)" by blast
  moreover from w2
  have "data (update scenario_meta [(''count'', PInt 5), (''bogus'', PInt 1)] scenario_model)
        = data scenario_model
            ++ changes (update scenario_meta [(''count'', PInt 5), (''bogus'', PInt 1)] scenario_model)"
    by simp
  ultimately show ?thesis using h mem look by simp
qed

text \<open>
  C5 as stated fails: \<open>update\<close> with \<open>count = 5\<close> on the committed scenario record
  changes the current data under \<open>count\<close> before any \<open>commit\<close>.
\<close>

theorem update_leaves_data_counterexample:
  "data (update scenario_meta [(''count'', PInt 5)] scenario_model) ''count''
     \<noteq> data scenario_model ''count''"
  by (simp add: update_def scenario_meta_eq scenario_model_def count_field_def name_field_def Let_def)

text \<open>
  C6: for a read-only field and a value of the field's type, the write succeeds while
  the record is not provisioned (the new value is then the field's current value), and
  once construction has completed (construction ends with \<open>provision_done\<close> true) the
  same write raises the \<open>TypeError\<close> of the read-only check and leaves the record, hence
  the field's value, unchanged.
\<close>

theorem read_only_write_gated:
  assumes "is_read_only f" and "isinstance v (field_type f)"
  shows "(\<not> provision_done m \<longrightarrow>
            FieldDescriptor_set f v m
              = (None, m\<lparr>changes := (changes m)(key f \<mapsto> v), data := (data m)(key f \<mapsto> v)\<rparr>)
          \<and> FieldDescriptor_get f (snd (FieldDescriptor_set f v m)) = v)
       \<and> (provision_done m \<longrightarrow>
            FieldDescriptor_set f v m
              = (Some (TypeError (Does_not_support_item_assignment (name f))), m))
       \<and> (BaseModel_init meta seed kw = Inr m \<longrightarrow> provision_done m)"
  using assms
  by (auto simp: FieldDescriptor_set_def FieldDescriptor_get_def dict_get_def BaseModel_init_def Let_def
           split: prod.splits option.splits)

theorem read_only_write_gated_witness:
  "is_read_only uuid_field \<and> isinstance (PStr ''u2'') (field_type uuid_field)
   \<and> fst (FieldDescriptor_set uuid_field (PStr ''u2'')
            \<lparr>data = Map.empty, changes = Map.empty, provision_done = False\<rparr>) = None
   \<and> BaseModel_init uuid_meta 0 [(''uuid'', PStr ''u1'')]
        = Inr \<lparr>data = [''uuid'' \<mapsto> PStr ''u1''], changes = [''uuid'' \<mapsto> PStr ''u1''], provision_done = True\<rparr>
   \<and> FieldDescriptor_set uuid_field (PStr ''u2'')
        \<lparr>data = [''uuid'' \<mapsto> PStr ''u1''], changes = [''uuid'' \<mapsto> PStr ''u1''], provision_done = True\<rparr>
      = (Some (TypeError (Does_not_support_item_assignment ''uuid'')),
         \<lparr>data = [''uuid'' \<mapsto> PStr ''u1''], changes = [''uuid'' \<mapsto> PStr ''u1''], provision_done = True\<rparr>)"
proof -
  have ro: "is_read_only uuid_field" by (simp add: uuid_field_def)
  have ty: "isinstance (PStr ''u2'') (field_type uuid_field)" by (simp add: uuid_field_def)
  have init: "BaseModel_init uuid_meta 0 [(''uuid'', PStr ''u1'')]
        = Inr \<lparr>data = [''uuid'' \<mapsto> PStr ''u1''], changes = [''uuid'' \<mapsto> PStr ''u1''], provision_done = True\<rparr>"
    by (simp add: uuid_meta_eq BaseModel_init_def set_fields_def get_defaults_def dict_get_def
        FieldDescriptor_set_def uuid_field_def Let_def)
  note before = read_only_write_gated [OF ro ty,
      of "\<lparr>data = Map.empty, changes = Map.empty, provision_done = False\<rparr>" uuid_meta 0 "[]"]
  note after = read_only_write_gated [OF ro ty,
      of "\<lparr>data = [''uuid'' \<mapsto> PStr ''u1''], changes = [''uuid'' \<mapsto> PStr ''u1''], provision_done = True\<rparr>"
         uuid_meta 0 "[(''uuid'', PStr ''u1'')]"]
  from before have b: "fst (FieldDescriptor_set uuid_field (PStr ''u2'')
            \<lparr>data = Map.empty, changes = Map.empty, provision_done = False\<rparr>) = None"
    by simp
  from after init have a: "FieldDescriptor_set uuid_field (PStr ''u2'')
        \<lparr>data = [''uuid'' \<mapsto> PStr ''u1''], changes = [''uuid'' \<mapsto> PStr ''u1''], provision_done = True\<rparr>
      = (Some (TypeError (Does_not_support_item_assignment ''uuid'')),
         \<lparr>data = [''uuid'' \<mapsto> PStr ''u1''], changes = [''uuid'' \<mapsto> PStr ''u1''], provision_done = True\<rparr>)"
    by (simp add: uuid_field_def)
  from ro ty init a b show ?thesis by simp
qed

text \<open>
  C7, on the code: a record whose required field \<open>hostname\<close> is stored under the key
  \<open>host\<close> is constructed with \<open>hostname = "vm1"\<close>; the field's current value is
  \<open>"vm1"\<close>, and \<open>validate\<close> raises \<open>DataProcessingError\<close> for \<open>hostname\<close> all the same
  (it leaves the record as it is).
\<close>

theorem validate_reads_under_name:
  "(case BaseModel_init hostname_meta seed [(''hostname'', PStr ''vm1'')] of
      Inl e \<Rightarrow> False
    | Inr m \<Rightarrow> FieldDescriptor_get hostname_field m = PStr ''vm1''
             \<and> validate hostname_meta m = (Some (DataProcessingError ''hostname''), m))"
  by (simp add: hostname_meta_eq BaseModel_init_def set_fields_def get_defaults_def dict_get_def
      FieldDescriptor_set_def FieldDescriptor_get_def hostname_field_def validate_def Let_def)

text \<open>
  C8, on the code: for the schema \<open>name\<close> (string, required, no default) and \<open>count\<close>
  (integer, default 0), construction with \<open>name = "x"\<close> succeeds and the dump is
  \<open>{"name": "x", "count": 0}\<close>; construction with no fields raises \<open>TypeError\<close> (the
  setter is given \<open>None\<close> for \<open>name\<close>), so there is no record to validate.
\<close>

theorem scenario_construction:
  "map_sum id (dump scenario_meta True) (BaseModel_init scenario_meta seed [(''name'', PStr ''x'')])
     = Inr [(''name'', PStr ''x''), (''count'', PInt 0)]
   \<and> BaseModel_init scenario_meta seed [] = Inl (TypeError (Invalid_type_of_value TStr))"
  by (simp add: scenario_meta_eq BaseModel_init_def set_fields_def get_defaults_def dict_get_def
      FieldDescriptor_set_def name_field_def count_field_def dump_def Let_def)

text \<open>
  C9, on the code: with a retry count of 3 and a server that cannot be reached (no
  round trip answers, or the first three raise \<open>ConnectionError\<close>), \<open>refresh\<close> returns
  \<open>True\<close>; with a retry count of 1 and a server that answers the probe of the new
  connection, \<open>refresh\<close> raises \<open>ArestorException\<close>.
\<close>

theorem refresh_inverted_connect:
  "fst (refresh 3 (new_connector [])) = Inr True
   \<and> fst (refresh 3 (new_connector [Raise_ConnectionError, Raise_ConnectionError, Raise_ConnectionError]))
        = Inr True
   \<and> fst (refresh 1 (new_connector [Reply_ok])) = Inl ArestorException"
  by (simp add: refresh_def new_connector_def is_alive_def connect_def round_trip_def numeral_3_eq_3)

text \<open>
  C10: the pending changes are a sub-map of the current data after every construction
  that succeeds, and a field write, \<open>update\<close>, \<open>BaseModel.commit\<close> and
  \<open>ArestorModel.commit\<close> keep it so (whether they raise or return); a freshly
  constructed record holds in its pending changes, with its current value, every
  schema field that construction assigned (one without a default, or one given a true
  value).
\<close>

theorem pending_submap_of_data:
  "(BaseModel_init meta seed kw = Inr m0 \<longrightarrow>
      changes m0 \<subseteq>\<^sub>m data m0
      \<and> (\<forall>(n, f) \<in> set (meta_fields meta).
            get_defaults meta seed (key f) = None \<or> truthy (dict_get (map_of kw) (name f))
            \<longrightarrow> changes m0 (key f) = Some (FieldDescriptor_get f m0)))
   \<and> (changes m \<subseteq>\<^sub>m data m \<longrightarrow>
        changes (snd (FieldDescriptor_set g v m)) \<subseteq>\<^sub>m data (snd (FieldDescriptor_set g v m))
      \<and> changes (update meta upd m) \<subseteq>\<^sub>m data (update meta upd m)
      \<and> changes (BaseModel_commit m) \<subseteq>\<^sub>m data (BaseModel_commit m)
      \<and> changes (fst (snd (ArestorModel_commit connector_set class_name m c)))
           \<subseteq>\<^sub>m data (fst (snd (ArestorModel_commit connector_set class_name m c))))"
proof -
  have fresh: "changes m0 \<subseteq>\<^sub>m data m0
      \<and> (\<forall>(n, f) \<in> set (meta_fields meta).
            get_defaults meta seed (key f) = None \<or> truthy (dict_get (map_of kw) (name f))
            \<longrightarrow> changes m0 (key f) = Some (FieldDescriptor_get f m0))"
    if init: "BaseModel_init meta seed kw = Inr m0"
  proof -
    have sub: "changes m0 \<subseteq>\<^sub>m data m0" by (rule init_submap [OF init])
    have "changes m0 (key f) = Some (FieldDescriptor_get f m0)"
      if "(n, f) \<in> set (meta_fields meta)"
        and "get_defaults meta seed (key f) = None \<or> truthy (dict_get (map_of kw) (name f))"
      for n f
    proof -
      from init_assigned [OF init that] obtain w where w: "changes m0 (key f) = Some w" by blast
      with sub have "data m0 (key f) = Some w" by (auto simp: map_le_def dom_def)
      with w show ?thesis by (simp add: FieldDescriptor_get_def dict_get_def)
    qed
    with sub show ?thesis by blast
  qed
  have kept: "changes (snd (FieldDescriptor_set g v m)) \<subseteq>\<^sub>m data (snd (FieldDescriptor_set g v m))
      \<and> changes (update meta upd m) \<subseteq>\<^sub>m data (update meta upd m)
      \<and> changes (BaseModel_commit m) \<subseteq>\<^sub>m data (BaseModel_commit m)
      \<and> changes (fst (snd (ArestorModel_commit connector_set class_name m c)))
           \<subseteq>\<^sub>m data (fst (snd (ArestorModel_commit connector_set class_name m c)))"
    if inv: "changes m \<subseteq>\<^sub>m data m"
  proof -
    have "changes (fst (snd (ArestorModel_commit connector_set class_name m c)))
           \<subseteq>\<^sub>m data (fst (snd (ArestorModel_commit connector_set class_name m c)))"
      using inv commit_submap [of m]
      by (auto simp: ArestorModel_commit_def split: prod.splits option.splits)
    with FieldDescriptor_set_submap [OF inv] update_submap [OF inv] commit_submap
    show ?thesis by blast
  qed
  from fresh kept show ?thesis by blast
qed

theorem pending_submap_of_data_witness:
  "BaseModel_init scenario_meta 0 [(''name'', PStr ''x'')] = Inr fresh_scenario_model
   \<and> (''name'', name_field) \<in> set (meta_fields scenario_meta)
   \<and> get_defaults scenario_meta 0 (key name_field) = None
   \<and> changes fresh_scenario_model \<subseteq>\<^sub>m data fresh_scenario_model
   \<and> changes fresh_scenario_model (key name_field) = Some (FieldDescriptor_get name_field fresh_scenario_model)
   \<and> changes (update scenario_meta [(''count'', PInt 5)] fresh_scenario_model)
        \<subseteq>\<^sub>m data (update scenario_meta [(''count'', PInt 5)] fresh_scenario_model)
   \<and> changes (BaseModel_commit fresh_scenario_model) \<subseteq>\<^sub>m data (BaseModel_commit fresh_scenario_model)"
proof -
  have init: "BaseModel_init scenario_meta 0 [(''name'', PStr ''x'')] = Inr fresh_scenario_model"
    by (simp add: scenario_meta_eq BaseModel_init_def set_fields_def get_defaults_def dict_get_def
        FieldDescriptor_set_def name_field_def count_field_def fresh_scenario_model_def Let_def)
  have mem: "(''name'', name_field) \<in> set (meta_fields scenario_meta)"
    by (simp add: scenario_meta_eq)
  have nodef: "get_defaults scenario_meta 0 (key name_field) = None"
    by (simp add: scenario_meta_eq get_defaults_def name_field_def)
  note w = pending_submap_of_data [of scenario_meta 0 "[(''name'', PStr ''x'')]" fresh_scenario_model
      fresh_scenario_model count_field "PInt 1" "[(''count'', PInt 5)]" recording_set "''Server''" "[]"]
  from w init have sub: "changes fresh_scenario_model \<subseteq>\<^sub>m data fresh_scenario_model" by blast
  from w init mem nodef
  have got: "changes fresh_scenario_model (key name_field)
      = Some (FieldDescriptor_get name_field fresh_scenario_model)" by blast
  from w sub have kept: "changes (update scenario_meta [(''count'', PInt 5)] fresh_scenario_model)
        \<subseteq>\<^sub>m data (update scenario_meta [(''count'', PInt 5)] fresh_scenario_model)
     \<and> changes (BaseModel_commit fresh_scenario_model) \<subseteq>\<^sub>m data (BaseModel_commit fresh_scenario_model)"
    by blast
  from init mem nodef sub got kept show ?thesis by blast
qed

end
